theory Spec2Isabelle
  imports Main "HOL-Library.Sublist" "HOL-Library.Word"
begin

section \<open>Python values, exceptions and strings\<close>

text \<open>
  The program under study is \<^verbatim>\<open>src/main.py\<close>: a FastAPI server with two
  endpoints, \<^verbatim>\<open>process_local_images\<close> (local mode) and \<^verbatim>\<open>generate_map\<close>
  (remote mode).  Both build a MATLAB command line, run it as a subprocess and
  interpret its exit status; the remote one also downloads the inputs from a
  storage bucket into a per-job directory, uploads the result, and removes the
  directory in a \<^verbatim>\<open>finally\<close> block.

  Strings are \<^typ>\<open>string\<close>, file contents are byte lists.  Every exception
  the code raises or can receive from a call is a value of \<open>exn\<close>; a
  computation that may raise returns \<open>exn + 'a\<close> with \<open>Inl\<close> for the raise.
\<close>

type_synonym bytes = "8 word list"

text \<open>What a dynamically typed call may hand back where bytes are expected.\<close>

datatype pyval = PyNone | PyBytes bytes

datatype error_class =
    FileExistsError | FileNotFoundError | IsADirectoryError | NotADirectoryError
  | TypeError | ExternalError

text \<open>
  \<open>HTTPException status_code detail\<close> is FastAPI's exception; \<open>PyError c m\<close> is any
  other exception of class \<open>c\<close> whose \<^verbatim>\<open>str()\<close> is \<open>m\<close> (\<open>ExternalError\<close>: raised
  inside the storage client or \<^verbatim>\<open>subprocess.run\<close>).
\<close>

datatype exn = HTTPException nat string | PyError error_class string

definition sq :: char where
  "sq = CHR 0x27"

definition dq :: char where
  "dq = CHR 0x22"

function str_nat :: "nat \<Rightarrow> string" where
  "str_nat n =
     (if n < 10 then [''0123456789'' ! n]
      else str_nat (n div 10) @ [''0123456789'' ! (n mod 10)])"
  by pat_completeness auto
termination
  by (relation "measure id") auto

declare str_nat.simps [simp del]

text \<open>
  \<^verbatim>\<open>str(e)\<close>.  For an \<^verbatim>\<open>HTTPException\<close> this is Starlette's
  \<^verbatim>\<open>__str__\<close>: \<^verbatim>\<open>f"{self.status_code}: {self.detail}"\<close>.
\<close>

fun py_str :: "exn \<Rightarrow> string" where
  "py_str (HTTPException status_code detail) = str_nat status_code @ '': '' @ detail"
| "py_str (PyError c m) = m"

text \<open>\<^verbatim>\<open>a or b\<close> on strings: the first operand when it is non-empty.\<close>

definition py_or :: "string \<Rightarrow> string \<Rightarrow> string" where
  "py_or a b = (if a \<noteq> [] then a else b)"

text \<open>\<^verbatim>\<open>repr\<close> of a path without quotes, backslashes or control characters.\<close>

definition py_repr :: "string \<Rightarrow> string" where
  "py_repr s = [sq] @ s @ [sq]"

section \<open>Paths (\<^verbatim>\<open>posixpath\<close>)\<close>

definition startswith_sep :: "string \<Rightarrow> bool" where
  "startswith_sep p = (case p of [] \<Rightarrow> False | c # _ \<Rightarrow> c = CHR ''/'')"

definition endswith_sep :: "string \<Rightarrow> bool" where
  "endswith_sep p = (case rev p of [] \<Rightarrow> False | c # _ \<Rightarrow> c = CHR ''/'')"

text \<open>\<^verbatim>\<open>os.path.join(a, b)\<close>.\<close>

definition path_join :: "string \<Rightarrow> string \<Rightarrow> string" where
  "path_join a b =
     (if startswith_sep b \<or> a = [] then b
      else if endswith_sep a then a @ b
      else a @ ''/'' @ b)"

text \<open>\<^verbatim>\<open>path.split('/')\<close>.\<close>

fun split_sep :: "string \<Rightarrow> string list" where
  "split_sep [] = [[]]"
| "split_sep (c # cs) =
     (if c = CHR ''/'' then [] # split_sep cs
      else (case split_sep cs of
              [] \<Rightarrow> [[c]]
            | w # ws \<Rightarrow> (c # w) # ws))"

text \<open>\<^verbatim>\<open>'/'.join(comps)\<close>.\<close>

fun join_sep :: "string list \<Rightarrow> string" where
  "join_sep [] = []"
| "join_sep [w] = w"
| "join_sep (w # ws) = w @ ''/'' @ join_sep ws"

text \<open>
  One round of the loop of \<^verbatim>\<open>normpath\<close> over the components; \<open>new_comps\<close>
  grows at its end (\<^verbatim>\<open>append\<close>) and shrinks there (\<^verbatim>\<open>pop\<close>).
\<close>

definition normpath_step :: "nat \<Rightarrow> string list \<Rightarrow> string \<Rightarrow> string list" where
  "normpath_step initial_slashes new_comps component =
     (if component = [] \<or> component = ''.'' then new_comps
      else if component \<noteq> ''..'' \<or> (initial_slashes = 0 \<and> new_comps = [])
              \<or> (new_comps \<noteq> [] \<and> last new_comps = ''..'')
           then new_comps @ [component]
      else if new_comps \<noteq> [] then butlast new_comps
      else new_comps)"

definition normpath :: "string \<Rightarrow> string" where
  "normpath path =
     (if path = [] then ''.''
      else
        let initial_slashes =
              (if startswith_sep path then
                 (if take 2 path = ''//'' \<and> take 3 path \<noteq> ''///'' then 2 else 1)
               else (0::nat));
            comps = foldl (normpath_step initial_slashes) [] (split_sep path);
            path' = replicate initial_slashes (CHR ''/'') @ join_sep comps
        in if path' = [] then ''.'' else path')"

text \<open>\<^verbatim>\<open>os.path.abspath(path)\<close>, with \<open>cwd\<close> what \<^verbatim>\<open>os.getcwd()\<close> returns.\<close>

definition abspath :: "string \<Rightarrow> string \<Rightarrow> string" where
  "abspath cwd path =
     normpath (if startswith_sep path then path else path_join cwd path)"

section \<open>The filesystem\<close>

text \<open>
  The filesystem is a table from path strings to nodes.  A call fails exactly
  when the table says so (a regular file where a directory is wanted, a missing
  file opened for reading); permissions and device errors are not modelled.
\<close>

datatype node = Dir | File bytes

type_synonym filesystem = "string \<Rightarrow> node option"

text \<open>\<^verbatim>\<open>os.path.exists(p)\<close>.\<close>

definition path_exists :: "filesystem \<Rightarrow> string \<Rightarrow> bool" where
  "path_exists fs p = (fs p \<noteq> None)"

definition is_dir :: "filesystem \<Rightarrow> string \<Rightarrow> bool" where
  "is_dir fs p = (fs p = Some Dir)"

text \<open>\<^verbatim>\<open>os.makedirs(p, exist_ok=True)\<close> below an existing directory.\<close>

definition makedirs :: "filesystem \<Rightarrow> string \<Rightarrow> exn + filesystem" where
  "makedirs fs p =
     (case fs p of
        None \<Rightarrow> Inr (fs(p \<mapsto> Dir))
      | Some Dir \<Rightarrow> Inr fs
      | Some (File _) \<Rightarrow>
          Inl (PyError FileExistsError (''[Errno 17] File exists: '' @ py_repr p)))"

text \<open>\<^verbatim>\<open>open(p, 'wb+')\<close>: the file is created, or truncated.\<close>

definition open_wb :: "filesystem \<Rightarrow> string \<Rightarrow> exn + filesystem" where
  "open_wb fs p =
     (case fs p of
        Some Dir \<Rightarrow>
          Inl (PyError IsADirectoryError (''[Errno 21] Is a directory: '' @ py_repr p))
      | _ \<Rightarrow> Inr (fs(p \<mapsto> File [])))"

text \<open>\<^verbatim>\<open>open(p, 'rb')\<close>, giving the bytes a reader of the file object gets.\<close>

definition open_rb :: "filesystem \<Rightarrow> string \<Rightarrow> exn + bytes" where
  "open_rb fs p =
     (case fs p of
        None \<Rightarrow>
          Inl (PyError FileNotFoundError
                 (''[Errno 2] No such file or directory: '' @ py_repr p))
      | Some Dir \<Rightarrow>
          Inl (PyError IsADirectoryError (''[Errno 21] Is a directory: '' @ py_repr p))
      | Some (File content) \<Rightarrow> Inr content)"

text \<open>\<^verbatim>\<open>f.write(res)\<close> on a file opened in binary mode at \<open>p\<close>.\<close>

definition file_write :: "filesystem \<Rightarrow> string \<Rightarrow> pyval \<Rightarrow> exn + filesystem" where
  "file_write fs p res =
     (case res of
        PyNone \<Rightarrow>
          Inl (PyError TypeError
                 (''a bytes-like object is required, not '' @ py_repr ''NoneType''))
      | PyBytes content \<Rightarrow> Inr (fs(p \<mapsto> File content)))"

text \<open>\<^verbatim>\<open>shutil.rmtree(p)\<close>: the directory and everything below it go.\<close>

definition rmtree :: "filesystem \<Rightarrow> string \<Rightarrow> exn + filesystem" where
  "rmtree fs p =
     (case fs p of
        None \<Rightarrow>
          Inl (PyError FileNotFoundError
                 (''[Errno 2] No such file or directory: '' @ py_repr p))
      | Some (File _) \<Rightarrow>
          Inl (PyError NotADirectoryError (''[Errno 20] Not a directory: '' @ py_repr p))
      | Some Dir \<Rightarrow>
          Inr (\<lambda>q. if q = p \<or> prefix (p @ ''/'') q then None else fs q))"

text \<open>
  Step E, the \<^verbatim>\<open>finally\<close> block of \<^verbatim>\<open>generate_map\<close> (lines 172-176):
  \<^verbatim>\<open>if os.path.exists(temp_dir): shutil.rmtree(temp_dir)\<close>.
\<close>

definition cleanup :: "filesystem \<Rightarrow> string \<Rightarrow> exn + filesystem" where
  "cleanup fs temp_dir = (if path_exists fs temp_dir then rmtree fs temp_dir else Inr fs)"

text \<open>
  What an external program leaves behind: regular files created or overwritten.
  It does not remove or replace directories.
\<close>

fun apply_writes :: "filesystem \<Rightarrow> (string \<times> bytes) list \<Rightarrow> filesystem" where
  "apply_writes fs [] = fs"
| "apply_writes fs ((p, content) # ws) =
     apply_writes (if is_dir fs p then fs else fs(p \<mapsto> File content)) ws"

text \<open>Line 120: \<^verbatim>\<open>temp_dir = os.path.join(os.getcwd(), f"temp_{job_id}")\<close>.\<close>

definition temp_dir_of :: "string \<Rightarrow> string \<Rightarrow> string" where
  "temp_dir_of cwd job_id = path_join cwd (''temp_'' @ job_id)"

section \<open>Collaborators\<close>

text \<open>\<^verbatim>\<open>subprocess.CompletedProcess\<close>, with \<^verbatim>\<open>text=True\<close>.\<close>

record completed_process =
  returncode :: int
  stdout :: string
  stderr :: string

text \<open>
  Every call that leaves the program is recorded with its arguments and with
  what it returned or raised:
  \<^item> \<open>Download bucket path result\<close>:
    \<^verbatim>\<open>supabase.storage.from_(bucket).download(path)\<close>;
  \<^item> \<open>SubprocessRun command shell capture_output text result\<close>:
    \<^verbatim>\<open>subprocess.run(command, shell=..., capture_output=..., text=...)\<close>;
  \<^item> \<open>Upload bucket path file file_options result\<close>:
    \<^verbatim>\<open>supabase.storage.from_(bucket).upload(file=f, path=..., file_options=...)\<close>,
    \<open>file\<close> being the bytes of the open file;
  \<^item> \<open>GetPublicUrl bucket path result\<close>:
    \<^verbatim>\<open>supabase.storage.from_(bucket).get_public_url(path)\<close>.
\<close>

datatype event =
    Download string string "exn + pyval"
  | SubprocessRun string bool bool bool "exn + completed_process"
  | Upload string string bytes "(string \<times> string) list" "exn + unit"
  | GetPublicUrl string string "exn + string"

fun is_run :: "event \<Rightarrow> bool" where
  "is_run (SubprocessRun command shell capture_output text result) = True"
| "is_run _ = False"

fun is_publish :: "event \<Rightarrow> bool" where
  "is_publish (Upload bucket path file file_options result) = True"
| "is_publish (GetPublicUrl bucket path result) = True"
| "is_publish _ = False"

text \<open>
  What the program does not determine: the working directory, the UUID drawn
  for the request, and the behaviour of the storage service and of the
  external program.  \<open>'w\<close> is the state of the outside world, which every
  call may read and change; the external program also sees the filesystem and
  returns the files it wrote.
\<close>

record 'w env =
  getcwd :: string
  uuid4 :: string
  download :: "'w \<Rightarrow> string \<Rightarrow> string \<Rightarrow> (exn + pyval) \<times> 'w"
  run :: "'w \<Rightarrow> filesystem \<Rightarrow> string \<Rightarrow>
            (exn + completed_process) \<times> (string \<times> bytes) list \<times> 'w"
  upload :: "'w \<Rightarrow> string \<Rightarrow> string \<Rightarrow> bytes \<Rightarrow> (string \<times> string) list \<Rightarrow>
            (exn + unit) \<times> 'w"
  get_public_url :: "'w \<Rightarrow> string \<Rightarrow> string \<Rightarrow> (exn + string) \<times> 'w"

record 'w state =
  filesys :: filesystem
  world :: 'w
  trace :: "event list"

definition storage_download ::
  "'w env \<Rightarrow> string \<Rightarrow> string \<Rightarrow> 'w state \<Rightarrow> (exn + pyval) \<times> 'w state" where
  "storage_download env bucket path st =
     (case download env (world st) bucket path of
        (result, w) \<Rightarrow>
          (result, st\<lparr>world := w, trace := trace st @ [Download bucket path result]\<rparr>))"

definition subprocess_run ::
  "'w env \<Rightarrow> string \<Rightarrow> 'w state \<Rightarrow> (exn + completed_process) \<times> 'w state" where
  "subprocess_run env command st =
     (case run env (world st) (filesys st) command of
        (result, written, w) \<Rightarrow>
          (result,
           st\<lparr>filesys := apply_writes (filesys st) written, world := w,
              trace := trace st @ [SubprocessRun command True True True result]\<rparr>))"

definition storage_upload ::
  "'w env \<Rightarrow> string \<Rightarrow> string \<Rightarrow> bytes \<Rightarrow> (string \<times> string) list \<Rightarrow> 'w state \<Rightarrow>
     (exn + unit) \<times> 'w state" where
  "storage_upload env bucket path file file_options st =
     (case upload env (world st) bucket path file file_options of
        (result, w) \<Rightarrow>
          (result,
           st\<lparr>world := w,
              trace := trace st @ [Upload bucket path file file_options result]\<rparr>))"

definition storage_get_public_url ::
  "'w env \<Rightarrow> string \<Rightarrow> string \<Rightarrow> 'w state \<Rightarrow> (exn + string) \<times> 'w state" where
  "storage_get_public_url env bucket path st =
     (case get_public_url env (world st) bucket path of
        (result, w) \<Rightarrow>
          (result, st\<lparr>world := w, trace := trace st @ [GetPublicUrl bucket path result]\<rparr>))"

section \<open>The two endpoints\<close>

text \<open>Lines 51-54: the body of a request to the remote endpoint.\<close>

record ImageProcessRequest =
  rgb_image_path :: string
  nir_image_path :: string

text \<open>A returned \<^verbatim>\<open>dict\<close>, keys in the order written.\<close>

type_synonym response = "(string \<times> string) list"

definition BUCKET_NAME :: string where
  "BUCKET_NAME = ''vegetation-maps''"

text \<open>
  Lines 86-90 and 141-145: the command line
  \<^verbatim>\<open>matlab -batch "cd '<project_path>'; runner('<rgb>', '<nir>', '<out>')"\<close>.
\<close>

definition matlab_command :: "string \<Rightarrow> string \<Rightarrow> string \<Rightarrow> string \<Rightarrow> string" where
  "matlab_command project_path rgb nir out =
     ''matlab -batch '' @ [dq] @
     ''cd '' @ [sq] @ project_path @ [sq] @ ''; '' @
     ''runner('' @ [sq] @ rgb @ [sq] @ '', '' @ [sq] @ nir @ [sq] @ '', '' @
       [sq] @ out @ [sq] @ '')'' @ [dq]"

text \<open>
  Lines 95-98 and 149-152: a non-zero exit status raises
  \<^verbatim>\<open>HTTPException(status_code=500, detail=error_message)\<close>.
\<close>

definition check_returncode :: "completed_process \<Rightarrow> exn + unit" where
  "check_returncode process =
     (if returncode process \<noteq> 0 then
        Inl (HTTPException 500
               (''MATLAB execution failed: '' @ py_or (stderr process) (stdout process)))
      else Inr ())"

text \<open>
  Lines 105-108 and 167-170: \<^verbatim>\<open>except Exception as e:
  raise HTTPException(status_code=500, detail=str(e))\<close>.  It also catches the
  \<^verbatim>\<open>HTTPException\<close> raised inside the \<^verbatim>\<open>try\<close>.
\<close>

definition except_Exception :: "exn + 'a \<Rightarrow> exn + 'a" where
  "except_Exception r =
     (case r of Inl e \<Rightarrow> Inl (HTTPException 500 (py_str e)) | Inr v \<Rightarrow> Inr v)"

subsection \<open>Local mode\<close>

definition not_found_detail :: string where
  "not_found_detail =
     ''Test files not found. Make sure '' @ [sq] @ ''test_rgb.jpg'' @ [sq] @ '' and '' @
     [sq] @ ''test_nir.jpg'' @ [sq] @ '' are in the '' @ [sq] @ ''local_test_data'' @ [sq] @
     '' folder.''"

text \<open>Lines 84-104, the body of the \<^verbatim>\<open>try\<close>.\<close>

definition process_local_images_try ::
  "'w env \<Rightarrow> string \<Rightarrow> string \<Rightarrow> string \<Rightarrow> string \<Rightarrow> 'w state \<Rightarrow>
     (exn + response) \<times> 'w state" where
  "process_local_images_try env project_path local_rgb_path local_nir_path
       local_output_path st =
     (case subprocess_run env
             (matlab_command project_path local_rgb_path local_nir_path local_output_path) st of
        (Inl e, st1) \<Rightarrow> (Inl e, st1)
      | (Inr process, st1) \<Rightarrow>
          (case check_returncode process of
             Inl e \<Rightarrow> (Inl e, st1)
           | Inr _ \<Rightarrow>
               (Inr [(''message'', ''Local processing successful!''),
                     (''output_saved_to'', local_output_path)], st1)))"

text \<open>Lines 59-108.\<close>

definition process_local_images_from :: "'w env \<Rightarrow> 'w state \<Rightarrow> (exn + response) \<times> 'w state" where
  "process_local_images_from env st =
     (let project_path = getcwd env;
          local_data_dir = path_join project_path ''local_test_data'';
          output_dir = path_join project_path ''local_outputs''
      in (case makedirs (filesys st) output_dir of
           Inl e \<Rightarrow> (Inl e, st)
         | Inr fs1 \<Rightarrow>
             let st1 = st\<lparr>filesys := fs1\<rparr>;
                 local_rgb_path =
                   abspath (getcwd env) (path_join local_data_dir ''test_rgb.jpg'');
                 local_nir_path =
                   abspath (getcwd env) (path_join local_data_dir ''test_nir.jpg'')
             in if \<not> path_exists (filesys st1) local_rgb_path \<or>
                   \<not> path_exists (filesys st1) local_nir_path
                then (Inl (HTTPException 404 not_found_detail), st1)
                else
                  let job_id = uuid4 env;
                      local_output_path =
                        abspath (getcwd env)
                          (path_join output_dir (''local_map_'' @ job_id @ ''.png''))
                  in (case process_local_images_try env project_path local_rgb_path
                             local_nir_path local_output_path st1 of
                        (r, st2) \<Rightarrow> (except_Exception r, st2))))"

definition process_local_images ::
  "'w env \<Rightarrow> filesystem \<Rightarrow> 'w \<Rightarrow> (exn + response) \<times> 'w state" where
  "process_local_images env fs0 w0 =
     process_local_images_from env \<lparr>filesys = fs0, world = w0, trace = []\<rparr>"

subsection \<open>Remote mode\<close>

text \<open>
  Lines 130-132 and 133-135:
  \<^verbatim>\<open>with open(local_path, 'wb+') as f: res = ...download(object_path); f.write(res)\<close>.
\<close>

definition download_to_file ::
  "'w env \<Rightarrow> string \<Rightarrow> string \<Rightarrow> 'w state \<Rightarrow> (exn + unit) \<times> 'w state" where
  "download_to_file env local_path object_path st =
     (case open_wb (filesys st) local_path of
        Inl e \<Rightarrow> (Inl e, st)
      | Inr fs1 \<Rightarrow>
          (case storage_download env BUCKET_NAME object_path (st\<lparr>filesys := fs1\<rparr>) of
             (Inl e, st1) \<Rightarrow> (Inl e, st1)
           | (Inr res, st1) \<Rightarrow>
               (case file_write (filesys st1) local_path res of
                  Inl e \<Rightarrow> (Inl e, st1)
                | Inr fs2 \<Rightarrow> (Inr (), st1\<lparr>filesys := fs2\<rparr>))))"

text \<open>Lines 155-165, steps C and D.\<close>

definition publish ::
  "'w env \<Rightarrow> string \<Rightarrow> string \<Rightarrow> 'w state \<Rightarrow> (exn + response) \<times> 'w state" where
  "publish env local_output_path output_filename st =
     (let output_storage_path = ''outputs/'' @ output_filename
      in (case open_rb (filesys st) local_output_path of
           Inl e \<Rightarrow> (Inl e, st)
         | Inr f \<Rightarrow>
             (case storage_upload env BUCKET_NAME output_storage_path f
                     [(''content-type'', ''image/png'')] st of
                (Inl e, st1) \<Rightarrow> (Inl e, st1)
              | (Inr _, st1) \<Rightarrow>
                  (case storage_get_public_url env BUCKET_NAME output_storage_path st1 of
                     (Inl e, st2) \<Rightarrow> (Inl e, st2)
                   | (Inr public_url, st2) \<Rightarrow>
                       (Inr [(''message'', ''Stress map generated successfully!''),
                             (''output_url'', public_url)], st2)))))"

text \<open>Lines 137-153, step B.\<close>

definition compute ::
  "'w env \<Rightarrow> string \<Rightarrow> string \<Rightarrow> string \<Rightarrow> 'w state \<Rightarrow> (exn + unit) \<times> 'w state" where
  "compute env local_rgb_path local_nir_path local_output_path st =
     (let project_path = getcwd env;
          command =
            matlab_command project_path (abspath (getcwd env) local_rgb_path)
              (abspath (getcwd env) local_nir_path) (abspath (getcwd env) local_output_path)
      in (case subprocess_run env command st of
           (Inl e, st1) \<Rightarrow> (Inl e, st1)
         | (Inr process, st1) \<Rightarrow> (check_returncode process, st1)))"

text \<open>Lines 125-165, the body of the \<^verbatim>\<open>try\<close>.\<close>

definition generate_map_try ::
  "'w env \<Rightarrow> ImageProcessRequest \<Rightarrow> string \<Rightarrow> string \<Rightarrow> 'w state \<Rightarrow>
     (exn + response) \<times> 'w state" where
  "generate_map_try env request job_id temp_dir st =
     (let local_rgb_path = path_join temp_dir ''input_rgb.png'';
          local_nir_path = path_join temp_dir ''input_nir.png''
      in (case download_to_file env local_rgb_path (rgb_image_path request) st of
           (Inl e, st1) \<Rightarrow> (Inl e, st1)
         | (Inr _, st1) \<Rightarrow>
             (case download_to_file env local_nir_path (nir_image_path request) st1 of
                (Inl e, st2) \<Rightarrow> (Inl e, st2)
              | (Inr _, st2) \<Rightarrow>
                  let output_filename = ''stress_map_'' @ job_id @ ''.png'';
                      local_output_path = path_join temp_dir output_filename
                  in (case compute env local_rgb_path local_nir_path local_output_path st2 of
                        (Inl e, st3) \<Rightarrow> (Inl e, st3)
                      | (Inr _, st3) \<Rightarrow> publish env local_output_path output_filename st3))))"

text \<open>
  Lines 113-176.  \<^verbatim>\<open>os.makedirs\<close> is outside the \<^verbatim>\<open>try\<close>; an
  exception of the \<^verbatim>\<open>finally\<close> block replaces the outcome of the rest.
\<close>

definition generate_map_from ::
  "'w env \<Rightarrow> ImageProcessRequest \<Rightarrow> 'w state \<Rightarrow> (exn + response) \<times> 'w state" where
  "generate_map_from env request st =
     (let job_id = uuid4 env;
          temp_dir = temp_dir_of (getcwd env) job_id
      in (case makedirs (filesys st) temp_dir of
           Inl e \<Rightarrow> (Inl e, st)
         | Inr fs1 \<Rightarrow>
             (case generate_map_try env request job_id temp_dir (st\<lparr>filesys := fs1\<rparr>) of
                (r, st1) \<Rightarrow>
                  (case cleanup (filesys st1) temp_dir of
                     Inl e \<Rightarrow> (Inl e, st1)
                   | Inr fs2 \<Rightarrow> (except_Exception r, st1\<lparr>filesys := fs2\<rparr>)))))"

definition generate_map ::
  "'w env \<Rightarrow> ImageProcessRequest \<Rightarrow> filesystem \<Rightarrow> 'w \<Rightarrow> (exn + response) \<times> 'w state" where
  "generate_map env request fs0 w0 =
     generate_map_from env request \<lparr>filesys = fs0, world = w0, trace = []\<rparr>"

section \<open>Properties\<close>

subsection \<open>The paths through each stage\<close>

lemma open_wb_cases:
  "(\<exists>e. open_wb fs p = Inl e) \<or>
   (\<not> is_dir fs p \<and> open_wb fs p = Inr (fs(p \<mapsto> File [])))"
  by (simp add: open_wb_def is_dir_def split: option.splits node.splits)

lemma download_to_file_cases:
  assumes "download_to_file env p obj st = (r, st')"
  obtains
    (open_failed) e where "r = Inl e" "trace st' = trace st" "filesys st' = filesys st"
  | (raised) e where "r = Inl e" "\<not> is_dir (filesys st) p"
      "trace st' = trace st @ [Download BUCKET_NAME obj (Inl e)]"
      "filesys st' = (filesys st)(p \<mapsto> File [])"
  | (no_bytes) e where "r = Inl e" "\<not> is_dir (filesys st) p"
      "trace st' = trace st @ [Download BUCKET_NAME obj (Inr PyNone)]"
      "filesys st' = (filesys st)(p \<mapsto> File [])"
  | (written) content where "r = Inr ()" "\<not> is_dir (filesys st) p"
      "trace st' = trace st @ [Download BUCKET_NAME obj (Inr (PyBytes content))]"
      "filesys st' = (filesys st)(p \<mapsto> File content)"
proof -
  from open_wb_cases [of "filesys st" p] show ?thesis
  proof (elim disjE exE conjE)
    fix e assume "open_wb (filesys st) p = Inl e"
    with assms have "r = Inl e" "st' = st"
      by (simp_all add: download_to_file_def)
    then show ?thesis using open_failed by simp
  next
    assume nd: "\<not> is_dir (filesys st) p"
      and ow: "open_wb (filesys st) p = Inr ((filesys st)(p \<mapsto> File []))"
    obtain d w where dl: "download env (world st) BUCKET_NAME obj = (d, w)"
      by (cases "download env (world st) BUCKET_NAME obj")
    show ?thesis
    proof (cases d)
      case (Inl e)
      with assms ow dl have "r = Inl e"
        "trace st' = trace st @ [Download BUCKET_NAME obj (Inl e)]"
        "filesys st' = (filesys st)(p \<mapsto> File [])"
        by (auto simp: download_to_file_def storage_download_def)
      then show ?thesis using raised nd by blast
    next
      case (Inr v)
      show ?thesis
      proof (cases v)
        case PyNone
        with Inr assms ow dl have "\<exists>e. r = Inl e"
          "trace st' = trace st @ [Download BUCKET_NAME obj (Inr PyNone)]"
          "filesys st' = (filesys st)(p \<mapsto> File [])"
          by (auto simp: download_to_file_def storage_download_def file_write_def)
        then show ?thesis using no_bytes nd by blast
      next
        case (PyBytes content)
        with Inr assms ow dl have "r = Inr ()"
          "trace st' = trace st @ [Download BUCKET_NAME obj (Inr (PyBytes content))]"
          "filesys st' = (filesys st)(p \<mapsto> File content)"
          by (auto simp: download_to_file_def storage_download_def file_write_def)
        then show ?thesis using written nd by blast
      qed
    qed
  qed
qed

lemma compute_cases:
  assumes "compute env rgb nir out st = (r, st')"
  obtains
    (raised) e ws where "r = Inl e"
      "trace st' = trace st @ [SubprocessRun (matlab_command (getcwd env) (abspath (getcwd env) rgb)
          (abspath (getcwd env) nir) (abspath (getcwd env) out)) True True True (Inl e)]"
      "filesys st' = apply_writes (filesys st) ws"
  | (nonzero) process ws where "returncode process \<noteq> 0"
      "r = Inl (HTTPException 500
               (''MATLAB execution failed: '' @ py_or (stderr process) (stdout process)))"
      "trace st' = trace st @ [SubprocessRun (matlab_command (getcwd env) (abspath (getcwd env) rgb)
          (abspath (getcwd env) nir) (abspath (getcwd env) out)) True True True (Inr process)]"
      "filesys st' = apply_writes (filesys st) ws"
  | (zero) process ws where "returncode process = 0" "r = Inr ()"
      "trace st' = trace st @ [SubprocessRun (matlab_command (getcwd env) (abspath (getcwd env) rgb)
          (abspath (getcwd env) nir) (abspath (getcwd env) out)) True True True (Inr process)]"
      "filesys st' = apply_writes (filesys st) ws"
  using assms that unfolding compute_def subprocess_run_def check_returncode_def
  by (auto simp: Let_def split: sum.splits prod.splits if_splits)

lemma publish_cases:
  assumes "publish env out name st = (r, st')"
  obtains
    (open_failed) e where "r = Inl e" "trace st' = trace st" "filesys st' = filesys st"
  | (upload_raised) e f where "r = Inl e" "filesys st' = filesys st"
      "trace st' = trace st @ [Upload BUCKET_NAME (''outputs/'' @ name) f
          [(''content-type'', ''image/png'')] (Inl e)]"
  | (url_raised) e f where "r = Inl e" "filesys st' = filesys st"
      "trace st' = trace st @ [Upload BUCKET_NAME (''outputs/'' @ name) f
          [(''content-type'', ''image/png'')] (Inr ()),
          GetPublicUrl BUCKET_NAME (''outputs/'' @ name) (Inl e)]"
  | (published) public_url f where 
      "r = Inr [(''message'', ''Stress map generated successfully!''),
                             (''output_url'', public_url)]" "filesys st' = filesys st"
      "trace st' = trace st @ [Upload BUCKET_NAME (''outputs/'' @ name) f
          [(''content-type'', ''image/png'')] (Inr ()),
          GetPublicUrl BUCKET_NAME (''outputs/'' @ name) (Inr public_url)]"
  using assms that unfolding publish_def storage_upload_def storage_get_public_url_def
  by (auto simp: Let_def split: sum.splits prod.splits)


lemma apply_writes_is_dir: "is_dir fs d \<Longrightarrow> is_dir (apply_writes fs ws) d"
proof (induction ws arbitrary: fs)
  case Nil
  then show ?case by simp
next
  case (Cons w ws)
  obtain p content where w: "w = (p, content)" by (cases w)
  have "is_dir (if is_dir fs p then fs else fs(p \<mapsto> File content)) d"
    using Cons.prems by (auto simp: is_dir_def)
  then show ?case unfolding w by (simp add: Cons.IH)
qed

lemma download_to_file_is_dir:
  assumes "download_to_file env p obj st = (r, st')" "is_dir (filesys st) d"
  shows "is_dir (filesys st') d"
  using assms(1)
  by (cases rule: download_to_file_cases) (use assms(2) in \<open>auto simp: is_dir_def\<close>)

lemma compute_is_dir:
  assumes "compute env rgb nir out st = (r, st')" "is_dir (filesys st) d"
  shows "is_dir (filesys st') d"
  using assms(1)
  by (cases rule: compute_cases) (use assms(2) in \<open>auto simp: apply_writes_is_dir\<close>)

lemma publish_is_dir:
  assumes "publish env out name st = (r, st')" "is_dir (filesys st) d"
  shows "is_dir (filesys st') d"
  using assms(1)
  by (cases rule: publish_cases) (use assms(2) in auto)

lemma generate_map_try_is_dir:
  assumes "generate_map_try env request job_id temp_dir st = (r, st')" "is_dir (filesys st) d"
  shows "is_dir (filesys st') d"
proof -
  let ?rgb = "path_join temp_dir ''input_rgb.png''"
  let ?nir = "path_join temp_dir ''input_nir.png''"
  let ?name = "''stress_map_'' @ job_id @ ''.png''"
  obtain r1 st1 where s1: "download_to_file env ?rgb (rgb_image_path request) st = (r1, st1)"
    by (cases "download_to_file env ?rgb (rgb_image_path request) st")
  obtain r2 st2 where s2: "download_to_file env ?nir (nir_image_path request) st1 = (r2, st2)"
    by (cases "download_to_file env ?nir (nir_image_path request) st1")
  obtain r3 st3 where s3: "compute env ?rgb ?nir (path_join temp_dir ?name) st2 = (r3, st3)"
    by (cases "compute env ?rgb ?nir (path_join temp_dir ?name) st2")
  obtain r4 st4 where s4: "publish env (path_join temp_dir ?name) ?name st3 = (r4, st4)"
    by (cases "publish env (path_join temp_dir ?name) ?name st3")
  have d1: "is_dir (filesys st1) d" using s1 assms(2) by (rule download_to_file_is_dir)
  have d2: "is_dir (filesys st2) d" using s2 d1 by (rule download_to_file_is_dir)
  have d3: "is_dir (filesys st3) d" using s3 d2 by (rule compute_is_dir)
  have d4: "is_dir (filesys st4) d" using s4 d3 by (rule publish_is_dir)
  have "st' = st1 \<or> st' = st2 \<or> st' = st3 \<or> st' = st4"
    using assms(1) s1 s2 s3 s4
    by (auto simp: generate_map_try_def Let_def split: sum.splits)
  with d1 d2 d3 d4 show ?thesis by blast
qed


lemma generate_map_try_cases:
  fixes env :: "'w env"
  defines "B \<equiv> BUCKET_NAME"
  assumes run: "generate_map_try env request job_id temp_dir st = (r, st')"
  defines "rgb \<equiv> rgb_image_path request" and "nir \<equiv> nir_image_path request"
    and "command \<equiv>
      matlab_command (getcwd env)
        (abspath (getcwd env) (path_join temp_dir ''input_rgb.png''))
        (abspath (getcwd env) (path_join temp_dir ''input_nir.png''))
        (abspath (getcwd env) (path_join temp_dir (''stress_map_'' @ job_id @ ''.png'')))"
    and "dest \<equiv> ''outputs/stress_map_'' @ job_id @ ''.png''"
    and "opts \<equiv> [(''content-type'', ''image/png'')]"
  obtains
    (rgb_open) e where "r = Inl e" "trace st' = trace st"
  | (rgb_raised) e where "r = Inl e" "trace st' = trace st @ [Download B rgb (Inl e)]"
  | (rgb_none) e where "r = Inl e" "trace st' = trace st @ [Download B rgb (Inr PyNone)]"
  | (nir_open) e c1 where "r = Inl e"
      "trace st' = trace st @ [Download B rgb (Inr (PyBytes c1))]"
  | (nir_raised) e c1 where "r = Inl e"
      "trace st' = trace st @ [Download B rgb (Inr (PyBytes c1)), Download B nir (Inl e)]"
  | (nir_none) e c1 where "r = Inl e"
      "trace st' = trace st @ [Download B rgb (Inr (PyBytes c1)), Download B nir (Inr PyNone)]"
  | (run_raised) e c1 c2 where "r = Inl e"
      "trace st' = trace st @ [Download B rgb (Inr (PyBytes c1)), Download B nir (Inr (PyBytes c2)),
         SubprocessRun command True True True (Inl e)]"
  | (run_nonzero) process c1 c2 where "returncode process \<noteq> 0"
      "r = Inl (HTTPException 500
               (''MATLAB execution failed: '' @ py_or (stderr process) (stdout process)))"
      "trace st' = trace st @ [Download B rgb (Inr (PyBytes c1)), Download B nir (Inr (PyBytes c2)),
         SubprocessRun command True True True (Inr process)]"
  | (output_open) e process c1 c2 where "returncode process = 0" "r = Inl e"
      "trace st' = trace st @ [Download B rgb (Inr (PyBytes c1)), Download B nir (Inr (PyBytes c2)),
         SubprocessRun command True True True (Inr process)]"
  | (upload_failed) e process c1 c2 f where "returncode process = 0" "r = Inl e"
      "trace st' = trace st @ [Download B rgb (Inr (PyBytes c1)), Download B nir (Inr (PyBytes c2)),
         SubprocessRun command True True True (Inr process), Upload B dest f opts (Inl e)]"
  | (url_failed) e process c1 c2 f where "returncode process = 0" "r = Inl e"
      "trace st' = trace st @ [Download B rgb (Inr (PyBytes c1)), Download B nir (Inr (PyBytes c2)),
         SubprocessRun command True True True (Inr process), Upload B dest f opts (Inr ()),
         GetPublicUrl B dest (Inl e)]"
  | (succeeded) public_url process c1 c2 f where "returncode process = 0"
      "r = Inr [(''message'', ''Stress map generated successfully!''),
                (''output_url'', public_url)]"
      "trace st' = trace st @ [Download B rgb (Inr (PyBytes c1)), Download B nir (Inr (PyBytes c2)),
         SubprocessRun command True True True (Inr process), Upload B dest f opts (Inr ()),
         GetPublicUrl B dest (Inr public_url)]"
proof -
  let ?rgb = "path_join temp_dir ''input_rgb.png''"
  let ?nir = "path_join temp_dir ''input_nir.png''"
  let ?name = "''stress_map_'' @ job_id @ ''.png''"
  obtain r1 st1 where s1: "download_to_file env ?rgb (rgb_image_path request) st = (r1, st1)"
    by (cases "download_to_file env ?rgb (rgb_image_path request) st")
  obtain r2 st2 where s2: "download_to_file env ?nir (nir_image_path request) st1 = (r2, st2)"
    by (cases "download_to_file env ?nir (nir_image_path request) st1")
  obtain r3 st3 where s3: "compute env ?rgb ?nir (path_join temp_dir ?name) st2 = (r3, st3)"
    by (cases "compute env ?rgb ?nir (path_join temp_dir ?name) st2")
  obtain r4 st4 where s4: "publish env (path_join temp_dir ?name) ?name st3 = (r4, st4)"
    by (cases "publish env (path_join temp_dir ?name) ?name st3")
  have unfold: "(r, st') =
      (case r1 of Inl e \<Rightarrow> (Inl e, st1)
       | Inr _ \<Rightarrow> (case r2 of Inl e \<Rightarrow> (Inl e, st2)
          | Inr _ \<Rightarrow> (case r3 of Inl e \<Rightarrow> (Inl e, st3) | Inr _ \<Rightarrow> (r4, st4))))"
    using run s1 s2 s3 s4 by (simp add: generate_map_try_def Let_def split: sum.splits)
  from s1 show ?thesis
  proof (cases rule: download_to_file_cases)
    case (open_failed e)
    with unfold show ?thesis using rgb_open by simp
  next
    case (raised e)
    with unfold show ?thesis using rgb_raised by (simp add: B_def rgb_def)
  next
    case (no_bytes e)
    with unfold show ?thesis using rgb_none by (simp add: B_def rgb_def)
  next
    case w1: (written c1)
    from s2 show ?thesis
    proof (cases rule: download_to_file_cases)
      case (open_failed e)
      with unfold w1 show ?thesis using nir_open by (simp add: B_def rgb_def)
    next
      case (raised e)
      with unfold w1 show ?thesis using nir_raised by (simp add: B_def rgb_def nir_def)
    next
      case (no_bytes e)
      with unfold w1 show ?thesis using nir_none by (simp add: B_def rgb_def nir_def)
    next
      case w2: (written c2)
      from s3 show ?thesis
      proof (cases rule: compute_cases)
        case (raised e ws)
        with unfold w1 w2 show ?thesis using run_raised
          by (simp add: B_def rgb_def nir_def command_def)
      next
        case (nonzero process ws)
        with unfold w1 w2 show ?thesis using run_nonzero
          by (simp add: B_def rgb_def nir_def command_def)
      next
        case z: (zero process ws)
        from s4 show ?thesis
        proof (cases rule: publish_cases)
          case (open_failed e)
          with unfold w1 w2 z show ?thesis using output_open
            by (simp add: B_def rgb_def nir_def command_def)
        next
          case (upload_raised e f)
          with unfold w1 w2 z show ?thesis using upload_failed
            by (simp add: B_def rgb_def nir_def command_def dest_def opts_def)
        next
          case (url_raised e f)
          with unfold w1 w2 z show ?thesis using url_failed
            by (simp add: B_def rgb_def nir_def command_def dest_def opts_def)
        next
          case (published public_url f)
          with unfold w1 w2 z show ?thesis using succeeded
            by (simp add: B_def rgb_def nir_def command_def dest_def opts_def)
        qed
      qed
    qed
  qed
qed

lemma makedirs_cases:
  "(\<exists>e b. fs p = Some (File b) \<and> makedirs fs p = Inl e) \<or>
   (\<exists>fs1. makedirs fs p = Inr fs1 \<and> is_dir fs1 p \<and> (\<forall>b. fs p \<noteq> Some (File b)))"
  by (auto simp: makedirs_def is_dir_def split: option.splits node.splits)

lemma cleanup_is_dir:
  "is_dir fs p \<Longrightarrow> \<exists>fs2. cleanup fs p = Inr fs2 \<and> fs2 p = None"
  by (simp add: cleanup_def rmtree_def path_exists_def is_dir_def)

lemma generate_map_cases:
  fixes env :: "'w env"
  defines "temp_dir \<equiv> temp_dir_of (getcwd env) (uuid4 env)"
  assumes run: "generate_map env request fs0 w0 = (r, st')"
  obtains
    (no_workspace) e b where "fs0 temp_dir = Some (File b)" "r = Inl e"
      "trace st' = []" "filesys st' = fs0"
  | (workspace) r0 st0 st1 where "trace st0 = []" "\<forall>b. fs0 temp_dir \<noteq> Some (File b)"
      "generate_map_try env request (uuid4 env) temp_dir st0 = (r0, st1)"
      "r = except_Exception r0" "trace st' = trace st1" "filesys st' temp_dir = None"
proof -
  from makedirs_cases [of fs0 temp_dir] show ?thesis
  proof (elim disjE exE conjE)
    fix e b assume "fs0 temp_dir = Some (File b)" "makedirs fs0 temp_dir = Inl e"
    with run have "r = Inl e" "trace st' = []" "filesys st' = fs0"
      by (auto simp: generate_map_def generate_map_from_def temp_dir_def)
    with \<open>fs0 temp_dir = Some (File b)\<close> show ?thesis using no_workspace by blast
  next
    fix fs1 assume mk: "makedirs fs0 temp_dir = Inr fs1" and d: "is_dir fs1 temp_dir"
      and nf: "\<forall>b. fs0 temp_dir \<noteq> Some (File b)"
    let ?st0 = "\<lparr>filesys = fs1, world = w0, trace = []\<rparr>"
    obtain r0 st1 where t: "generate_map_try env request (uuid4 env) temp_dir ?st0 = (r0, st1)"
      by (cases "generate_map_try env request (uuid4 env) temp_dir ?st0")
    have "is_dir (filesys st1) temp_dir"
      using t by (rule generate_map_try_is_dir) (simp add: d)
    then obtain fs2 where c: "cleanup (filesys st1) temp_dir = Inr fs2" "fs2 temp_dir = None"
      using cleanup_is_dir by blast
    from run mk t c have "r = except_Exception r0" "st' = st1\<lparr>filesys := fs2\<rparr>"
      by (simp_all add: generate_map_def generate_map_from_def temp_dir_def [symmetric])
    with c t nf show ?thesis using workspace [of ?st0 r0 st1] by simp
  qed
qed


lemma generate_map_paths:
  fixes env :: "'w env"
  defines "B \<equiv> BUCKET_NAME"
    and "temp_dir \<equiv> temp_dir_of (getcwd env) (uuid4 env)"
  assumes run: "generate_map env request fs0 w0 = (r, st')"
  defines "rgb \<equiv> rgb_image_path request" and "nir \<equiv> nir_image_path request"
    and "command \<equiv>
      matlab_command (getcwd env)
        (abspath (getcwd env) (path_join temp_dir ''input_rgb.png''))
        (abspath (getcwd env) (path_join temp_dir ''input_nir.png''))
        (abspath (getcwd env) (path_join temp_dir (''stress_map_'' @ uuid4 env @ ''.png'')))"
    and "dest \<equiv> ''outputs/stress_map_'' @ uuid4 env @ ''.png''"
    and "opts \<equiv> [(''content-type'', ''image/png'')]"
  obtains
    (no_workspace) e b where "fs0 temp_dir = Some (File b)" "r = Inl e"
      "trace st' = []" "filesys st' = fs0"
  | (rgb_open) e where "\<forall>b. fs0 temp_dir \<noteq> Some (File b)" "filesys st' temp_dir = None"
      "r = Inl (HTTPException 500 (py_str e))"
      "trace st' = []"
  | (rgb_raised) e where "\<forall>b. fs0 temp_dir \<noteq> Some (File b)" "filesys st' temp_dir = None"
      "r = Inl (HTTPException 500 (py_str e))"
      "trace st' = [Download B rgb (Inl e)]"
  | (rgb_none) e where "\<forall>b. fs0 temp_dir \<noteq> Some (File b)" "filesys st' temp_dir = None"
      "r = Inl (HTTPException 500 (py_str e))"
      "trace st' = [Download B rgb (Inr PyNone)]"
  | (nir_open) e c1 where "\<forall>b. fs0 temp_dir \<noteq> Some (File b)" "filesys st' temp_dir = None"
      "r = Inl (HTTPException 500 (py_str e))"
      "trace st' = [Download B rgb (Inr (PyBytes c1))]"
  | (nir_raised) e c1 where "\<forall>b. fs0 temp_dir \<noteq> Some (File b)" "filesys st' temp_dir = None"
      "r = Inl (HTTPException 500 (py_str e))"
      "trace st' = [Download B rgb (Inr (PyBytes c1)),
         Download B nir (Inl e)]"
  | (nir_none) e c1 where "\<forall>b. fs0 temp_dir \<noteq> Some (File b)" "filesys st' temp_dir = None"
      "r = Inl (HTTPException 500 (py_str e))"
      "trace st' = [Download B rgb (Inr (PyBytes c1)),
         Download B nir (Inr PyNone)]"
  | (run_raised) e c1 c2 where "\<forall>b. fs0 temp_dir \<noteq> Some (File b)" "filesys st' temp_dir = None"
      "r = Inl (HTTPException 500 (py_str e))"
      "trace st' = [Download B rgb (Inr (PyBytes c1)),
         Download B nir (Inr (PyBytes c2)),
         SubprocessRun command True True True (Inl e)]"
  | (run_nonzero) process c1 c2 where "\<forall>b. fs0 temp_dir \<noteq> Some (File b)" "filesys st' temp_dir = None"
      "returncode process \<noteq> 0"
      "r = Inl (HTTPException 500 (py_str (HTTPException 500
               (''MATLAB execution failed: '' @ py_or (stderr process) (stdout process)))))"
      "trace st' = [Download B rgb (Inr (PyBytes c1)),
         Download B nir (Inr (PyBytes c2)),
         SubprocessRun command True True True (Inr process)]"
  | (output_open) e process c1 c2 where "\<forall>b. fs0 temp_dir \<noteq> Some (File b)" "filesys st' temp_dir = None"
      "returncode process = 0"
      "r = Inl (HTTPException 500 (py_str e))"
      "trace st' = [Download B rgb (Inr (PyBytes c1)),
         Download B nir (Inr (PyBytes c2)),
         SubprocessRun command True True True (Inr process)]"
  | (upload_failed) e process c1 c2 f where "\<forall>b. fs0 temp_dir \<noteq> Some (File b)" "filesys st' temp_dir = None"
      "returncode process = 0"
      "r = Inl (HTTPException 500 (py_str e))"
      "trace st' = [Download B rgb (Inr (PyBytes c1)),
         Download B nir (Inr (PyBytes c2)),
         SubprocessRun command True True True (Inr process),
         Upload B dest f opts (Inl e)]"
  | (url_failed) e process c1 c2 f where "\<forall>b. fs0 temp_dir \<noteq> Some (File b)" "filesys st' temp_dir = None"
      "returncode process = 0"
      "r = Inl (HTTPException 500 (py_str e))"
      "trace st' = [Download B rgb (Inr (PyBytes c1)),
         Download B nir (Inr (PyBytes c2)),
         SubprocessRun command True True True (Inr process),
         Upload B dest f opts (Inr ()),
         GetPublicUrl B dest (Inl e)]"
  | (succeeded) public_url process c1 c2 f where "\<forall>b. fs0 temp_dir \<noteq> Some (File b)" "filesys st' temp_dir = None"
      "returncode process = 0"
      "r = Inr [(''message'', ''Stress map generated successfully!''),
                (''output_url'', public_url)]"
      "trace st' = [Download B rgb (Inr (PyBytes c1)),
         Download B nir (Inr (PyBytes c2)),
         SubprocessRun command True True True (Inr process),
         Upload B dest f opts (Inr ()),
         GetPublicUrl B dest (Inr public_url)]"
proof -
  from run show ?thesis
  proof (cases rule: generate_map_cases)
    case (no_workspace e b)
    then show ?thesis using that(1) by (simp add: temp_dir_def)
  next
    case w: (workspace r0 st0 st1)
    note defs = B_def temp_dir_def rgb_def nir_def command_def dest_def opts_def
      except_Exception_def
    from w(3) show ?thesis
    proof (cases rule: generate_map_try_cases)
      case (rgb_open e)
      with w show ?thesis using that(2) by (simp add: defs)
    next
      case (rgb_raised e)
      with w show ?thesis using that(3) by (simp add: defs)
    next
      case (rgb_none e)
      with w show ?thesis using that(4) by (simp add: defs)
    next
      case (nir_open e c1)
      with w show ?thesis using that(5) by (simp add: defs)
    next
      case (nir_raised e c1)
      with w show ?thesis using that(6) by (simp add: defs)
    next
      case (nir_none e c1)
      with w show ?thesis using that(7) by (simp add: defs)
    next
      case (run_raised e c1 c2)
      with w show ?thesis using that(8) by (simp add: defs)
    next
      case (run_nonzero process c1 c2)
      with w show ?thesis using that(9) by (simp add: defs)
    next
      case (output_open e process c1 c2)
      with w show ?thesis using that(10) by (simp add: defs)
    next
      case (upload_failed e process c1 c2 f)
      with w show ?thesis using that(11) by (simp add: defs)
    next
      case (url_failed e process c1 c2 f)
      with w show ?thesis using that(12) by (simp add: defs)
    next
      case (succeeded public_url process c1 c2 f)
      with w show ?thesis using that(13) by (simp add: defs)
    qed
  qed
qed

subsection \<open>The claims\<close>

lemma temp_dir_of_eq:
  "temp_dir_of cwd job_id =
     (if cwd = [] then ''temp_'' @ job_id
      else if endswith_sep cwd then cwd @ ''temp_'' @ job_id
      else cwd @ ''/temp_'' @ job_id)"
  by (simp add: temp_dir_of_def path_join_def startswith_sep_def)

text \<open>
  C5.  In one working directory, jobs with distinct identifiers get distinct
  workspace paths: \<open>temp_dir_of cwd\<close> is injective.
\<close>

theorem temp_dir_of_inj:
  "job_id \<noteq> job_id' \<Longrightarrow> temp_dir_of cwd job_id \<noteq> temp_dir_of cwd job_id'"
  by (simp add: temp_dir_of_eq)

theorem temp_dir_of_inj_witness:
  "''a1'' \<noteq> ''a2'' \<and> temp_dir_of ''/srv/app'' ''a1'' \<noteq> temp_dir_of ''/srv/app'' ''a2''"
  using temp_dir_of_inj [of "''a1''" "''a2''" "''/srv/app''"] by simp

text \<open>
  C8.  The cleanup step on a path that does not exist returns without an error
  and leaves the filesystem as it was; and after a cleanup that returned, a
  second one returns too and changes nothing.
\<close>

theorem cleanup_absent_idempotent:
  "(\<not> path_exists fs temp_dir \<longrightarrow> cleanup fs temp_dir = Inr fs) \<and>
   (cleanup fs temp_dir = Inr fs' \<longrightarrow> cleanup fs' temp_dir = Inr fs')"
  by (auto simp: cleanup_def rmtree_def path_exists_def split: option.splits node.splits if_splits)

theorem cleanup_absent_idempotent_witness:
  "\<not> path_exists Map.empty ''/srv/app/temp_a1'' \<and>
   cleanup Map.empty ''/srv/app/temp_a1'' = Inr Map.empty \<and>
   cleanup [''/srv/app/temp_a1'' \<mapsto> Dir] ''/srv/app/temp_a1'' = Inr Map.empty \<and>
   cleanup Map.empty ''/srv/app/temp_a1'' = Inr Map.empty"
proof -
  have absent: "\<not> path_exists Map.empty ''/srv/app/temp_a1''"
    by (simp add: path_exists_def)
  have removed: "cleanup [''/srv/app/temp_a1'' \<mapsto> Dir] ''/srv/app/temp_a1'' = Inr Map.empty"
    by (auto simp: cleanup_def rmtree_def path_exists_def)
  from absent removed
    cleanup_absent_idempotent [of Map.empty "''/srv/app/temp_a1''" Map.empty]
    cleanup_absent_idempotent
      [of "[''/srv/app/temp_a1'' \<mapsto> Dir]" "''/srv/app/temp_a1''" Map.empty]
  show ?thesis by blast
qed

end
